theory Spec2Isabelle
  imports Main
begin

section \<open>fix\_migrations.py: reconciling the migration history table\<close>

text \<open>
  The script checks that the SQLite file exists, opens one connection, and for each entry of a
  fixed list of migrations runs a SELECT on the table \<^verbatim>\<open>__EFMigrationsHistory\<close> and, when no
  row comes back, an INSERT. Each entry is handled inside its own \<^verbatim>\<open>try/except Exception\<close>;
  one \<^verbatim>\<open>commit\<close> and one \<^verbatim>\<open>close\<close> follow the loop, inside an outer \<^verbatim>\<open>try/except Exception\<close>.

  The file system and the \<^verbatim>\<open>sqlite3\<close> module are not part of the script. They are
  modelled as the environment of a run: whether the file exists, whether \<^verbatim>\<open>connect\<close> and
  \<^verbatim>\<open>commit\<close> raise, the rows of the table, and for each upcoming \<^verbatim>\<open>cursor.execute\<close> call
  whether it raises and whether SQLite then rolls the open transaction back. Every
  \<^verbatim>\<open>raise\<close> the script can meet is a branch of the model.
\<close>

subsection \<open>Data\<close>

text \<open>A migration is the pair \<^verbatim>\<open>(migration_id, product_version)\<close> of the source's list.\<close>

type_synonym migration = "string \<times> string"

definition db_path :: string where
  "db_path = ''hexabill.db''"

definition migrations :: "migration list" where
  "migrations =
    [(''20260218024142_AddExpenseRouteId'', ''9.0.0''),
     (''20260219062317_AddDamageCategoriesAndReturnExtensions'', ''9.0.0'')]"

text \<open>
  The exceptions of \<^verbatim>\<open>sqlite3\<close>, all subclasses of \<^verbatim>\<open>Exception\<close>, each with its message
  (what \<^verbatim>\<open>{e}\<close> prints).
\<close>

datatype py_exception =
    OperationalError string
  | IntegrityError string
  | DatabaseError string

fun str :: "py_exception \<Rightarrow> string" where
  "str (OperationalError s) = s"
| "str (IntegrityError s) = s"
| "str (DatabaseError s) = s"

definition no_such_table :: py_exception where
  "no_such_table = OperationalError ''no such table: __EFMigrationsHistory''"

definition unique_failed :: py_exception where
  "unique_failed = IntegrityError ''UNIQUE constraint failed: __EFMigrationsHistory.MigrationId''"

text \<open>
  What the environment does to one \<^verbatim>\<open>cursor.execute\<close> call that it makes fail. The call
  raises the exception in both cases. After \<open>Raises\<close> the open transaction is as it was (a
  locked database, a constraint). After \<open>RollsBack\<close> SQLite has rolled the whole open
  transaction back before the exception reaches the script (a full disk, a disk I/O error,
  no memory left): the rows this connection had inserted and not committed are gone.
\<close>

datatype fault =
    Raises py_exception
  | RollsBack py_exception

fun raised :: "fault \<Rightarrow> py_exception" where
  "raised (Raises e) = e"
| "raised (RollsBack e) = e"

fun rolls_back :: "fault \<Rightarrow> bool" where
  "rolls_back (Raises e) = False"
| "rolls_back (RollsBack e) = True"

text \<open>The two statements the script passes to \<^verbatim>\<open>cursor.execute\<close>, with their parameters.\<close>

datatype sql =
    SelectStmt string
  | InsertStmt string string

text \<open>
  The lines the script prints, one constructor for each \<^verbatim>\<open>print\<close> of the source. The three
  lines of the loop body are the outcome of one migration.
\<close>

datatype line =
    FileNotFound
  | Checking
  | AlreadyRecorded string
  | Inserted string
  | Failed string py_exception
  | Completed
  | ConnectionError py_exception

fun render :: "line \<Rightarrow> string" where
  "render FileNotFound = ''Error: Database file '' @ [CHR 0x27] @ db_path @ [CHR 0x27] @ '' not found.''"
| "render Checking = ''Checking migrations for '' @ db_path @ ''...''"
| "render (AlreadyRecorded migration_id) = ''Migration already exists in history: '' @ migration_id"
| "render (Inserted migration_id) = ''Inserted migration into history: '' @ migration_id"
| "render (Failed migration_id e) = ''Error processing '' @ migration_id @ '': '' @ str e"
| "render Completed = ''Migration history update completed.''"
| "render (ConnectionError e) = ''Database connection error: '' @ str e"

fun is_failed :: "line \<Rightarrow> bool" where
  "is_failed (Failed _ _) = True"
| "is_failed _ = False"

fun is_insert :: "sql \<Rightarrow> bool" where
  "is_insert (InsertStmt _ _) = True"
| "is_insert _ = False"

fun is_select :: "sql \<Rightarrow> bool" where
  "is_select (SelectStmt _) = True"
| "is_select _ = False"

subsection \<open>The cursor\<close>

text \<open>
  What the script's connection sees and does:
  \<^item> \<open>stored\<close>: the rows of \<^verbatim>\<open>__EFMigrationsHistory\<close> in the file, in insertion order, as
    of the last commit; \<open>None\<close> when the file has no such table. The script commits once,
    after the loop, so during the loop this is the table the run started with;
  \<^item> \<open>history\<close>: the table as this connection sees it: the stored rows and after them the
    rows this connection has inserted and not yet committed;
  \<^item> \<open>unique_id\<close>: whether the table rejects a second row with the same \<^verbatim>\<open>MigrationId\<close>.
    The table's declaration is not in the script, so it is a parameter;
  \<^item> \<open>pending\<close>: the environment's answer to the upcoming \<^verbatim>\<open>execute\<close> calls, first call first:
    \<open>Some f\<close> makes the call fail as \<open>f\<close> says, \<open>None\<close> lets it through; after the end of
    the list every call goes through;
  \<^item> \<open>executed\<close>: the statements passed to \<^verbatim>\<open>execute\<close> so far, each with the exception it
    raised, if any;
  \<^item> \<open>rollbacks\<close>: how many times SQLite has rolled the open transaction back so far.
  The script reads neither \<open>executed\<close> nor \<open>rollbacks\<close>; the theorems do.
\<close>

record cursor =
  stored :: "migration list option"
  history :: "migration list option"
  unique_id :: bool
  pending :: "fault option list"
  executed :: "(sql \<times> py_exception option) list"
  rollbacks :: nat

definition ids :: "migration list option \<Rightarrow> string set" where
  "ids h = (case h of None \<Rightarrow> {} | Some rows \<Rightarrow> set (map fst rows))"

text \<open>
  One \<^verbatim>\<open>cursor.execute\<close> call: the environment's fault first, then SQLite's own checks (a
  missing table, a second row for a unique \<^verbatim>\<open>MigrationId\<close>), which fail the statement alone.
  A statement that raises inserts no row; when the fault rolls the transaction back, the
  connection sees the stored table again.
\<close>

definition next_fault :: "cursor \<Rightarrow> fault option" where
  "next_fault c = (case pending c of [] \<Rightarrow> None | f # _ \<Rightarrow> f)"

definition raise_of :: "cursor \<Rightarrow> sql \<Rightarrow> py_exception option" where
  "raise_of c s =
    (case next_fault c of
       Some f \<Rightarrow> Some (raised f)
     | None \<Rightarrow>
        (case history c of
           None \<Rightarrow> Some no_such_table
         | Some rows \<Rightarrow>
            (case s of
               SelectStmt migration_id \<Rightarrow> None
             | InsertStmt migration_id product_version \<Rightarrow>
                 if unique_id c \<and> migration_id \<in> set (map fst rows)
                 then Some unique_failed else None)))"

definition aborts :: "cursor \<Rightarrow> bool" where
  "aborts c = (case next_fault c of Some f \<Rightarrow> rolls_back f | None \<Rightarrow> False)"

definition execute :: "cursor \<Rightarrow> sql \<Rightarrow> py_exception option \<times> cursor" where
  "execute c s =
    (let r = raise_of c s;
         c' = c\<lparr>pending := tl (pending c), executed := executed c @ [(s, r)]\<rparr>
     in case r of
          Some e \<Rightarrow>
            (Some e,
             if aborts c then c'\<lparr>history := stored c, rollbacks := Suc (rollbacks c)\<rparr> else c')
        | None \<Rightarrow>
           (case s of
              SelectStmt migration_id \<Rightarrow> (None, c')
            | InsertStmt migration_id product_version \<Rightarrow>
                (None, c'\<lparr>history := map_option (\<lambda>rows. rows @ [(migration_id, product_version)])
                                       (history c')\<rparr>)))"

text \<open>
  \<^verbatim>\<open>cursor.fetchone()\<close> after the SELECT: a row \<^verbatim>\<open>(1,)\<close> when some row has that
  \<^verbatim>\<open>MigrationId\<close>, else \<^verbatim>\<open>None\<close>. The script only tests the result for truth.
\<close>

definition fetchone :: "cursor \<Rightarrow> string \<Rightarrow> bool" where
  "fetchone c migration_id = (migration_id \<in> ids (history c))"

subsection \<open>The loop\<close>

text \<open>
  The body of the \<^verbatim>\<open>for\<close> loop. Both \<^verbatim>\<open>execute\<close> calls are inside the \<^verbatim>\<open>try\<close>; the
  handler prints the error line, and the loop goes on.
\<close>

definition process :: "cursor \<Rightarrow> migration \<Rightarrow> line \<times> cursor" where
  "process c m =
    (let migration_id = fst m; product_version = snd m in
     case execute c (SelectStmt migration_id) of
       (Some e, c1) \<Rightarrow> (Failed migration_id e, c1)
     | (None, c1) \<Rightarrow>
         let exists = fetchone c1 migration_id in
         if exists then (AlreadyRecorded migration_id, c1)
         else
           (case execute c1 (InsertStmt migration_id product_version) of
              (Some e, c2) \<Rightarrow> (Failed migration_id e, c2)
            | (None, c2) \<Rightarrow> (Inserted migration_id, c2)))"

fun reconcile :: "cursor \<Rightarrow> migration list \<Rightarrow> line list \<times> cursor" where
  "reconcile c [] = ([], c)"
| "reconcile c (m # ms) =
    (let (l, c1) = process c m;
         (ls, c2) = reconcile c1 ms
     in (l # ls, c2))"

subsection \<open>The script\<close>

text \<open>
  The environment of one run: \<^verbatim>\<open>os.path.exists(db_path)\<close>, the exception \<^verbatim>\<open>sqlite3.connect\<close>
  raises (if any), the table as stored in the file, the faults of the \<^verbatim>\<open>execute\<close> calls, and
  the exception \<^verbatim>\<open>conn.commit()\<close> raises (if any).
\<close>

record env =
  file_exists :: bool
  connect_exn :: "py_exception option"
  table :: "migration list option"
  table_unique :: bool
  execute_exns :: "fault option list"
  commit_exn :: "py_exception option"

text \<open>
  What a run leaves behind: the exit status of the process, the printed lines, the table as the
  connection last saw it (the file's table when no connection was opened), the statements
  executed, and whether \<^verbatim>\<open>connect\<close>, \<^verbatim>\<open>commit\<close> and \<^verbatim>\<open>close\<close> completed.
\<close>

record run =
  status :: nat
  stdout :: "line list"
  ledger :: "migration list option"
  stmts :: "(sql \<times> py_exception option) list"
  connected :: bool
  committed :: bool
  closed :: bool

definition connect :: "env \<Rightarrow> cursor" where
  "connect w = \<lparr>stored = table w, history = table w, unique_id = table_unique w,
                pending = execute_exns w, executed = [], rollbacks = 0\<rparr>"

text \<open>
  The script with the migration list as a parameter. \<^verbatim>\<open>exit(1)\<close> ends the process with
  status 1 before the \<^verbatim>\<open>try\<close>; an exception of \<^verbatim>\<open>connect\<close> or \<^verbatim>\<open>commit\<close> is caught
  by the outer handler, which prints it, and the script then ends normally, with status 0.
  \<^verbatim>\<open>conn.close()\<close> is the last statement of the \<^verbatim>\<open>try\<close> block.
\<close>

definition script :: "env \<Rightarrow> migration list \<Rightarrow> run" where
  "script w catalog =
    (if \<not> file_exists w then
       \<lparr>status = 1, stdout = [FileNotFound], ledger = table w, stmts = [],
        connected = False, committed = False, closed = False\<rparr>
     else
       (case connect_exn w of
          Some e \<Rightarrow>
            \<lparr>status = 0, stdout = [ConnectionError e], ledger = table w, stmts = [],
             connected = False, committed = False, closed = False\<rparr>
        | None \<Rightarrow>
            (let (ls, c) = reconcile (connect w) catalog in
             case commit_exn w of
               Some e \<Rightarrow>
                 \<lparr>status = 0, stdout = Checking # ls @ [ConnectionError e],
                  ledger = history c, stmts = executed c,
                  connected = True, committed = False, closed = False\<rparr>
             | None \<Rightarrow>
                 \<lparr>status = 0, stdout = Checking # ls @ [Completed],
                  ledger = history c, stmts = executed c,
                  connected = True, committed = True, closed = True\<rparr>)))"

definition main :: "env \<Rightarrow> run" where
  "main w = script w migrations"

text \<open>The migration a printed line is about, for the three lines of the loop body.\<close>

fun subject :: "line \<Rightarrow> string option" where
  "subject (AlreadyRecorded migration_id) = Some migration_id"
| "subject (Inserted migration_id) = Some migration_id"
| "subject (Failed migration_id e) = Some migration_id"
| "subject _ = None"

section \<open>Properties of the model\<close>

subsection \<open>One statement\<close>

lemma execute_fst [simp]: "fst (execute c s) = raise_of c s"
  by (simp add: execute_def Let_def split: option.splits sql.splits)

lemma execute_stored [simp]: "stored (snd (execute c s)) = stored c"
  by (simp add: execute_def Let_def split: option.splits sql.splits)

lemma execute_unique [simp]: "unique_id (snd (execute c s)) = unique_id c"
  by (simp add: execute_def Let_def split: option.splits sql.splits)

lemma execute_pending [simp]: "pending (snd (execute c s)) = tl (pending c)"
  by (simp add: execute_def Let_def split: option.splits sql.splits)

lemma execute_executed [simp]:
  "executed (snd (execute c s)) = executed c @ [(s, raise_of c s)]"
  by (simp add: execute_def Let_def split: option.splits sql.splits)

lemma aborts_raises: "aborts c \<Longrightarrow> raise_of c s \<noteq> None"
  by (simp add: aborts_def raise_of_def split: option.splits)

lemma execute_rollbacks:
  "rollbacks (snd (execute c s)) = (if aborts c then Suc (rollbacks c) else rollbacks c)"
  using aborts_raises [of c s]
  by (auto simp: execute_def Let_def split: option.splits sql.splits)

lemma execute_select_history:
  "history (snd (execute c (SelectStmt i))) = (if aborts c then stored c else history c)"
  using aborts_raises [of c "SelectStmt i"]
  by (auto simp: execute_def Let_def split: option.splits)

lemma execute_insert_history:
  "history (snd (execute c (InsertStmt i v))) =
     (if aborts c then stored c
      else if raise_of c (InsertStmt i v) = None
      then map_option (\<lambda>rows. rows @ [(i, v)]) (history c)
      else history c)"
  using aborts_raises [of c "InsertStmt i v"]
  by (auto simp: execute_def Let_def split: option.splits)

lemma raise_of_no_table [simp]: "history c = None \<Longrightarrow> (raise_of c s = None) = False"
  by (simp add: raise_of_def split: option.splits)

lemma next_fault_quiet: "set (pending c) \<subseteq> {None} \<Longrightarrow> next_fault c = None"
  by (cases "pending c") (auto simp: next_fault_def)

lemma tl_quiet: "set xs \<subseteq> {None} \<Longrightarrow> set (tl xs) \<subseteq> {None}"
  by (cases xs) auto

lemma aborts_quiet: "set (pending c) \<subseteq> {None} \<Longrightarrow> \<not> aborts c"
  by (simp add: aborts_def next_fault_quiet)

lemma raise_of_select_quiet:
  "set (pending c) \<subseteq> {None} \<Longrightarrow> history c \<noteq> None \<Longrightarrow> raise_of c (SelectStmt i) = None"
  by (auto simp: raise_of_def next_fault_quiet split: option.splits)

lemma raise_of_insert_quiet:
  assumes "set (pending c) \<subseteq> {None}" and "history c \<noteq> None" and "i \<notin> ids (history c)"
  shows "raise_of (snd (execute c (SelectStmt i))) (InsertStmt i v) = None"
proof -
  have "set (pending (snd (execute c (SelectStmt i)))) \<subseteq> {None}"
    using assms(1) by (simp add: tl_quiet)
  then have "next_fault (snd (execute c (SelectStmt i))) = None"
    by (rule next_fault_quiet)
  moreover have "history (snd (execute c (SelectStmt i))) = history c"
    using assms(1) by (simp add: execute_select_history aborts_quiet)
  ultimately show ?thesis
    using assms(2,3) by (auto simp: raise_of_def ids_def split: option.splits)
qed

subsection \<open>The loop body\<close>

lemma process_eq:
  "process c m =
    (let c1 = snd (execute c (SelectStmt (fst m)));
         c2 = snd (execute c1 (InsertStmt (fst m) (snd m)))
     in case raise_of c (SelectStmt (fst m)) of
          Some e \<Rightarrow> (Failed (fst m) e, c1)
        | None \<Rightarrow>
           if fst m \<in> ids (history c) then (AlreadyRecorded (fst m), c1)
           else
             (case raise_of c1 (InsertStmt (fst m) (snd m)) of
                Some e \<Rightarrow> (Failed (fst m) e, c2)
              | None \<Rightarrow> (Inserted (fst m), c2)))"
proof (cases "raise_of c (SelectStmt (fst m))")
  case None
  then have "\<not> aborts c" using aborts_raises [of c "SelectStmt (fst m)"] by blast
  then have "history (snd (execute c (SelectStmt (fst m)))) = history c"
    by (simp add: execute_select_history)
  then show ?thesis
    using None by (simp add: process_def Let_def split_beta fetchone_def split: option.splits)
next
  case (Some e)
  then show ?thesis
    by (simp add: process_def Let_def split_beta)
qed

lemma process_subject [simp]: "subject (fst (process c m)) = Some (fst m)"
  by (simp add: process_eq Let_def split: option.splits)

lemma process_unique [simp]: "unique_id (snd (process c m)) = unique_id c"
  by (simp add: process_eq Let_def split: option.splits)

lemma process_stored [simp]: "stored (snd (process c m)) = stored c"
  by (simp add: process_eq Let_def split: option.splits)

lemma process_rollbacks: "rollbacks c \<le> rollbacks (snd (process c m))"
  by (simp add: process_eq Let_def execute_rollbacks split: option.splits)

text \<open>What one record can do to the table: nothing, a rollback, or one new row.\<close>

lemma process_history:
  "history (snd (process c m)) = history c \<and> rollbacks (snd (process c m)) = rollbacks c \<and>
     fst (process c m) \<noteq> Inserted (fst m) \<or>
   history (snd (process c m)) = stored c \<and> rollbacks c < rollbacks (snd (process c m)) \<and>
     is_failed (fst (process c m)) \<or>
   history (snd (process c m)) = map_option (\<lambda>rows. rows @ [m]) (history c) \<and>
     rollbacks (snd (process c m)) = rollbacks c \<and> fst (process c m) = Inserted (fst m)"
proof (cases "raise_of c (SelectStmt (fst m))")
  case (Some e)
  then show ?thesis
    by (simp add: process_eq Let_def execute_select_history execute_rollbacks)
next
  case None
  then have na: "\<not> aborts c" using aborts_raises [of c "SelectStmt (fst m)"] by blast
  show ?thesis
  proof (cases "fst m \<in> ids (history c)")
    case True
    then show ?thesis
      using None na by (simp add: process_eq Let_def execute_select_history execute_rollbacks)
  next
    case False
    show ?thesis
    proof (cases "raise_of (snd (execute c (SelectStmt (fst m)))) (InsertStmt (fst m) (snd m))")
      case None': None
      then have "\<not> aborts (snd (execute c (SelectStmt (fst m))))"
        using aborts_raises by blast
      then show ?thesis
        using None None' False na
        by (simp add: process_eq Let_def execute_select_history execute_insert_history
            execute_rollbacks)
    next
      case (Some e)
      then show ?thesis
        using None False na
        by (simp add: process_eq Let_def execute_select_history execute_insert_history
            execute_rollbacks)
    qed
  qed
qed

lemma process_Inserted:
  "fst (process c m) = Inserted i \<Longrightarrow> i = fst m \<and> fst m \<notin> ids (history c) \<and> history c \<noteq> None"
  by (cases "history c") (auto simp: process_eq Let_def split: option.splits if_splits)

lemma process_present:
  assumes "fst m \<in> ids (history c)"
  shows "snd (process c m) = snd (execute c (SelectStmt (fst m)))"
    and "fst (process c m) =
          (case raise_of c (SelectStmt (fst m)) of
             None \<Rightarrow> AlreadyRecorded (fst m) | Some e \<Rightarrow> Failed (fst m) e)"
  using assms by (simp_all add: process_eq Let_def split: option.splits)

lemma ids_snoc:
  "ids (map_option (\<lambda>rows. rows @ [m]) h) = (if h = None then {} else insert (fst m) (ids h))"
  by (cases h) (simp_all add: ids_def)

lemma process_kept:
  assumes "rollbacks (snd (process c m)) = rollbacks c"
  shows "ids (history c) \<subseteq> ids (history (snd (process c m)))"
proof -
  from process_history [of c m] assms consider
    "history (snd (process c m)) = history c"
  | "history (snd (process c m)) = map_option (\<lambda>rows. rows @ [m]) (history c)"
      "fst (process c m) = Inserted (fst m)"
    by fastforce
  then show ?thesis
  proof cases
    case 1
    then show ?thesis by simp
  next
    case 2
    from process_Inserted [OF 2(2)] have "history c \<noteq> None" by simp
    with 2(1) show ?thesis by (auto simp: ids_snoc)
  qed
qed

lemma process_not_failed:
  assumes "\<not> is_failed (fst (process c m))"
  shows "fst m \<in> ids (history (snd (process c m)))"
    and "ids (history c) \<subseteq> ids (history (snd (process c m)))"
    and "rollbacks (snd (process c m)) = rollbacks c"
proof -
  from process_history [of c m] assms consider
    "history (snd (process c m)) = history c" "rollbacks (snd (process c m)) = rollbacks c"
      "fst (process c m) \<noteq> Inserted (fst m)"
  | "history (snd (process c m)) = map_option (\<lambda>rows. rows @ [m]) (history c)"
      "rollbacks (snd (process c m)) = rollbacks c" "fst (process c m) = Inserted (fst m)"
    by blast
  then have "fst m \<in> ids (history (snd (process c m))) \<and>
      ids (history c) \<subseteq> ids (history (snd (process c m))) \<and>
      rollbacks (snd (process c m)) = rollbacks c"
  proof cases
    case 1
    have "fst (process c m) = AlreadyRecorded (fst m)"
      using assms 1(3) by (auto simp: process_eq Let_def split: option.splits if_splits)
    then have "fst m \<in> ids (history c)"
      by (auto simp: process_eq Let_def split: option.splits if_splits)
    with 1 show ?thesis by simp
  next
    case 2
    from process_Inserted [OF 2(3)] have "history c \<noteq> None" by simp
    with 2 show ?thesis by (auto simp: ids_snoc)
  qed
  then show "fst m \<in> ids (history (snd (process c m)))"
    and "ids (history c) \<subseteq> ids (history (snd (process c m)))"
    and "rollbacks (snd (process c m)) = rollbacks c" by simp_all
qed


lemma process_no_table:
  assumes "history c = None" and "stored c = None"
  shows "history (snd (process c m)) = None" and "is_failed (fst (process c m))"
    and "snd (process c m) = snd (execute c (SelectStmt (fst m)))"
  using assms
  by (auto simp: process_eq Let_def ids_def execute_select_history split: option.splits)

lemma process_quiet:
  assumes "set (pending c) \<subseteq> {None}" and "history c \<noteq> None"
  shows "\<not> is_failed (fst (process c m))" and "set (pending (snd (process c m))) \<subseteq> {None}"
    and "history (snd (process c m)) \<noteq> None"
proof -
  note s = raise_of_select_quiet [OF assms, of "fst m"]
  note i = raise_of_insert_quiet [OF assms, of "fst m" "snd m"]
  show nf: "\<not> is_failed (fst (process c m))"
    using s i by (simp add: process_eq Let_def)
  show "set (pending (snd (process c m))) \<subseteq> {None}"
    using assms(1) by (simp add: process_eq Let_def s tl_quiet split: option.splits)
  show "history (snd (process c m)) \<noteq> None"
    using process_history [of c m] nf assms(2) by (cases "history c") auto
qed

lemma process_selects:
  "filter is_select (map fst (executed (snd (process c m)))) =
     filter is_select (map fst (executed c)) @ [SelectStmt (fst m)]"
  by (simp add: process_eq Let_def split: option.splits)

lemma failed_line: "is_failed l \<Longrightarrow> subject l = Some i \<Longrightarrow> \<exists>e. l = Failed i e"
  by (cases l) simp_all

subsection \<open>The loop\<close>

lemma reconcile_append:
  "reconcile c (xs @ ys) =
     (fst (reconcile c xs) @ fst (reconcile (snd (reconcile c xs)) ys),
      snd (reconcile (snd (reconcile c xs)) ys))"
  by (induction xs arbitrary: c) (simp_all add: split_beta)

lemma reconcile_length [simp]: "length (fst (reconcile c ms)) = length ms"
  by (induction ms arbitrary: c) (simp_all add: split_beta)

lemma reconcile_subject: "map subject (fst (reconcile c ms)) = map (\<lambda>m. Some (fst m)) ms"
  by (induction ms arbitrary: c) (simp_all add: split_beta)

lemma reconcile_stored [simp]: "stored (snd (reconcile c ms)) = stored c"
  by (induction ms arbitrary: c) (simp_all add: split_beta)

lemma reconcile_selects:
  "filter is_select (map fst (executed (snd (reconcile c ms)))) =
     filter is_select (map fst (executed c)) @ map (\<lambda>m. SelectStmt (fst m)) ms"
  by (induction ms arbitrary: c) (simp_all add: split_beta process_selects)

lemma reconcile_rollbacks: "rollbacks c \<le> rollbacks (snd (reconcile c ms))"
proof (induction ms arbitrary: c)
  case Nil
  then show ?case by simp
next
  case (Cons m ms)
  show ?case
    using process_rollbacks [of c m] Cons.IH [of "snd (process c m)"]
    by (simp add: split_beta)
qed

lemma reconcile_kept:
  "rollbacks (snd (reconcile c ms)) = rollbacks c \<Longrightarrow>
    ids (history c) \<subseteq> ids (history (snd (reconcile c ms)))"
proof (induction ms arbitrary: c)
  case Nil
  then show ?case by simp
next
  case (Cons m ms)
  have le: "rollbacks c \<le> rollbacks (snd (process c m))"
    by (rule process_rollbacks)
  have le': "rollbacks (snd (process c m)) \<le> rollbacks (snd (reconcile (snd (process c m)) ms))"
    by (rule reconcile_rollbacks)
  have eq: "rollbacks (snd (reconcile (snd (process c m)) ms)) = rollbacks c"
    using Cons.prems by (simp add: split_beta)
  from le le' eq have 1: "rollbacks (snd (process c m)) = rollbacks c" by simp
  with eq have 2: "rollbacks (snd (reconcile (snd (process c m)) ms)) =
      rollbacks (snd (process c m))" by simp
  from process_kept [OF 1] Cons.IH [OF 2] show ?case
    by (auto simp: split_beta)
qed

text \<open>
  The rows of the connection are always the stored rows followed by rows of the catalog
  whose identifiers are not among the stored ones.
\<close>

lemma process_grows:
  assumes "stored c = Some rows" and "history c = Some (rows @ n0)"
    and "\<forall>r \<in> set n0. fst r \<notin> set (map fst rows)"
  shows "\<exists>n1. history (snd (process c m)) = Some (rows @ n1) \<and> set n1 \<subseteq> set n0 \<union> {m} \<and>
           (\<forall>r \<in> set n1. fst r \<notin> set (map fst rows))"
proof -
  from process_history [of c m] consider
    "history (snd (process c m)) = history c"
  | "history (snd (process c m)) = stored c"
  | "history (snd (process c m)) = map_option (\<lambda>rows. rows @ [m]) (history c)"
      "fst (process c m) = Inserted (fst m)"
    by blast
  then show ?thesis
  proof cases
    case 1
    with assms show ?thesis by auto
  next
    case 2
    with assms(1) have "history (snd (process c m)) = Some (rows @ [])" by simp
    then show ?thesis by (intro exI [of _ "[]"]) simp
  next
    case 3
    from process_Inserted [OF 3(2)] assms(2) have "fst m \<notin> set (map fst (rows @ n0))"
      by (simp add: ids_def)
    then have m: "fst m \<notin> set (map fst rows)" by simp
    have "history (snd (process c m)) = Some (rows @ (n0 @ [m]))"
      using 3(1) assms(2) by simp
    moreover have "set (n0 @ [m]) \<subseteq> set n0 \<union> {m}" by simp
    moreover have "\<forall>r \<in> set (n0 @ [m]). fst r \<notin> set (map fst rows)"
      using assms(3) m by simp
    ultimately show ?thesis by blast
  qed
qed

lemma reconcile_grows:
  assumes "stored c = Some rows" and "history c = Some (rows @ n0)"
    and "\<forall>r \<in> set n0. fst r \<notin> set (map fst rows)"
  shows "\<exists>new. history (snd (reconcile c ms)) = Some (rows @ new) \<and>
           set new \<subseteq> set n0 \<union> set ms \<and> (\<forall>r \<in> set new. fst r \<notin> set (map fst rows))"
  using assms
proof (induction ms arbitrary: c n0)
  case Nil
  then show ?case by auto
next
  case (Cons m ms)
  from process_grows [OF Cons.prems, of m] obtain n1 where
    h1: "history (snd (process c m)) = Some (rows @ n1)" and s1: "set n1 \<subseteq> set n0 \<union> {m}"
    and d1: "\<forall>r \<in> set n1. fst r \<notin> set (map fst rows)" by blast
  have st: "stored (snd (process c m)) = Some rows" using Cons.prems(1) by simp
  from Cons.IH [OF st h1 d1] obtain new where
    h2: "history (snd (reconcile (snd (process c m)) ms)) = Some (rows @ new)"
    and s2: "set new \<subseteq> set n1 \<union> set ms"
    and d2: "\<forall>r \<in> set new. fst r \<notin> set (map fst rows)" by blast
  have "history (snd (reconcile c (m # ms))) = Some (rows @ new)"
    using h2 by (simp add: split_beta)
  moreover have "set new \<subseteq> set n0 \<union> set (m # ms)"
    using s1 s2 by auto
  ultimately show ?case using d2 by blast
qed

lemma reconcile_no_table:
  "history c = None \<Longrightarrow> stored c = None \<Longrightarrow>
    history (snd (reconcile c ms)) = None \<and> (\<forall>l \<in> set (fst (reconcile c ms)). is_failed l) \<and>
    filter is_insert (map fst (executed (snd (reconcile c ms)))) =
      filter is_insert (map fst (executed c))"
proof (induction ms arbitrary: c)
  case Nil
  then show ?case by simp
next
  case (Cons m ms)
  note nt = process_no_table [OF Cons.prems, of m]
  have "stored (snd (process c m)) = None" using Cons.prems(2) by simp
  from Cons.IH [OF nt(1) this] show ?case
    using nt(2) by (simp add: split_beta nt(3))
qed

lemma reconcile_clean:
  "\<forall>l \<in> set (fst (reconcile c ms)). \<not> is_failed l \<Longrightarrow>
    ids (history c) \<union> fst ` set ms \<subseteq> ids (history (snd (reconcile c ms)))"
proof (induction ms arbitrary: c)
  case Nil
  then show ?case by simp
next
  case (Cons m ms)
  from Cons.prems have nf: "\<not> is_failed (fst (process c m))"
    and rest: "\<forall>l \<in> set (fst (reconcile (snd (process c m)) ms)). \<not> is_failed l"
    by (simp_all add: split_beta)
  note pn = process_not_failed [OF nf]
  from Cons.IH [OF rest] pn(1) pn(2) show ?case
    by (auto simp: split_beta)
qed

text \<open>The outcome of entry \<open>i\<close> and the state after it, read off the loop over a prefix.\<close>

lemma reconcile_nth:
  assumes "i < length ms"
  shows "fst (reconcile c ms) ! i = fst (process (snd (reconcile c (take i ms))) (ms ! i))"
    and "snd (reconcile c (take (Suc i) ms)) =
           snd (process (snd (reconcile c (take i ms))) (ms ! i))"
    and "snd (reconcile c ms) =
           snd (reconcile (snd (reconcile c (take (Suc i) ms))) (drop (Suc i) ms))"
proof -
  have ms: "ms = take i ms @ ms ! i # drop (Suc i) ms"
    using assms by (rule id_take_nth_drop)
  have "fst (reconcile c ms) =
      fst (reconcile c (take i ms)) @
      fst (reconcile (snd (reconcile c (take i ms))) (ms ! i # drop (Suc i) ms))"
    using reconcile_append [of c "take i ms" "ms ! i # drop (Suc i) ms"] ms by simp
  then have "fst (reconcile c ms) ! i =
      fst (reconcile (snd (reconcile c (take i ms))) (ms ! i # drop (Suc i) ms)) ! 0"
    using assms by (simp add: nth_append)
  then show "fst (reconcile c ms) ! i = fst (process (snd (reconcile c (take i ms))) (ms ! i))"
    by (simp add: split_beta)
  show "snd (reconcile c (take (Suc i) ms)) =
      snd (process (snd (reconcile c (take i ms))) (ms ! i))"
    using assms by (simp add: take_Suc_conv_app_nth reconcile_append split_beta)
  have "ms = take (Suc i) ms @ drop (Suc i) ms" by simp
  then show "snd (reconcile c ms) =
      snd (reconcile (snd (reconcile c (take (Suc i) ms))) (drop (Suc i) ms))"
    using reconcile_append [of c "take (Suc i) ms" "drop (Suc i) ms"] by simp
qed

lemma reconcile_recorded:
  assumes "i < length ms" and "\<not> is_failed (fst (reconcile c ms) ! i)"
  shows "fst (ms ! i) \<in> ids (history (snd (reconcile c (take (Suc i) ms))))"
  using assms process_not_failed(1) [of "snd (reconcile c (take i ms))" "ms ! i"]
  by (simp add: reconcile_nth)

lemma reconcile_not_failed:
  assumes "i < length ms" and "\<not> is_failed (fst (reconcile c ms) ! i)"
    and "rollbacks (snd (reconcile c ms)) = rollbacks (snd (reconcile c (take (Suc i) ms)))"
  shows "fst (ms ! i) \<in> ids (history (snd (reconcile c ms)))"
proof -
  have "rollbacks (snd (reconcile (snd (reconcile c (take (Suc i) ms))) (drop (Suc i) ms))) =
      rollbacks (snd (reconcile c (take (Suc i) ms)))"
    using assms(3) reconcile_nth(3) [OF assms(1), of c] by simp
  from reconcile_kept [OF this] reconcile_recorded [OF assms(1,2)]
  show ?thesis
    using reconcile_nth(3) [OF assms(1), of c] by auto
qed

lemma reconcile_present:
  "fst ` set ms \<subseteq> ids (history c) \<Longrightarrow> stored c = history c \<Longrightarrow>
    history (snd (reconcile c ms)) = history c \<and>
    filter is_insert (map fst (executed (snd (reconcile c ms)))) =
      filter is_insert (map fst (executed c)) \<and>
    (\<forall>l \<in> set (fst (reconcile c ms)). \<forall>i. l \<noteq> Inserted i)"
proof (induction ms arbitrary: c)
  case Nil
  then show ?case by simp
next
  case (Cons m ms)
  then have m: "fst m \<in> ids (history c)" by simp
  note pp = process_present [OF m]
  have h: "history (snd (process c m)) = history c"
    using Cons.prems(2) by (simp add: pp(1) execute_select_history)
  have "fst ` set ms \<subseteq> ids (history (snd (process c m)))"
    using Cons.prems(1) by (simp add: h)
  moreover have "stored (snd (process c m)) = history (snd (process c m))"
    using Cons.prems(2) by (simp add: h)
  ultimately have "history (snd (reconcile (snd (process c m)) ms)) = history (snd (process c m)) \<and>
    filter is_insert (map fst (executed (snd (reconcile (snd (process c m)) ms)))) =
      filter is_insert (map fst (executed (snd (process c m)))) \<and>
    (\<forall>l \<in> set (fst (reconcile (snd (process c m)) ms)). \<forall>i. l \<noteq> Inserted i)"
    by (rule Cons.IH)
  then show ?case
    using h by (auto simp: split_beta pp split: option.splits)
qed

lemma reconcile_quiet:
  "set (pending c) \<subseteq> {None} \<Longrightarrow> history c \<noteq> None \<Longrightarrow>
    (\<forall>l \<in> set (fst (reconcile c ms)). \<not> is_failed l) \<and>
    fst ` set ms \<subseteq> ids (history (snd (reconcile c ms)))"
proof (induction ms arbitrary: c)
  case Nil
  then show ?case by simp
next
  case (Cons m ms)
  note ph = process_quiet [OF Cons.prems, of m]
  from Cons.IH [OF ph(2) ph(3)] have
    ih: "\<forall>l \<in> set (fst (reconcile (snd (process c m)) ms)). \<not> is_failed l" by simp
  then have all: "\<forall>l \<in> set (fst (reconcile c (m # ms))). \<not> is_failed l"
    using ph(1) by (simp add: split_beta)
  from reconcile_clean [OF all] show ?case using all by blast
qed

lemma reconcile_no_table_quiet:
  "history c = None \<Longrightarrow> set (pending c) \<subseteq> {None} \<Longrightarrow>
    fst (reconcile c ms) = map (\<lambda>m. Failed (fst m) no_such_table) ms"
proof (induction ms arbitrary: c)
  case Nil
  then show ?case by simp
next
  case (Cons m ms)
  have r: "raise_of c (SelectStmt (fst m)) = Some no_such_table"
    using Cons.prems by (simp add: raise_of_def next_fault_quiet)
  have p: "process c m = (Failed (fst m) no_such_table, snd (execute c (SelectStmt (fst m))))"
    by (simp add: process_eq Let_def r)
  have "fst (reconcile (snd (execute c (SelectStmt (fst m)))) ms) =
          map (\<lambda>m. Failed (fst m) no_such_table) ms"
    using Cons.prems
    by (intro Cons.IH) (simp_all add: tl_quiet execute_select_history aborts_quiet)
  then show ?case by (simp add: p split_beta)
qed

subsection \<open>The script\<close>

lemma script_connected:
  "file_exists w \<Longrightarrow> connect_exn w = None \<Longrightarrow>
    script w catalog =
      \<lparr>status = 0,
       stdout = Checking # fst (reconcile (connect w) catalog) @
                  [case commit_exn w of None \<Rightarrow> Completed | Some e \<Rightarrow> ConnectionError e],
       ledger = history (snd (reconcile (connect w) catalog)),
       stmts = executed (snd (reconcile (connect w) catalog)),
       connected = True, committed = (commit_exn w = None), closed = (commit_exn w = None)\<rparr>"
  by (simp add: script_def split_beta split: option.splits)

lemma script_not_connected:
  "\<not> (file_exists w \<and> connect_exn w = None) \<Longrightarrow>
    ledger (script w catalog) = table w \<and> stmts (script w catalog) = [] \<and>
    \<not> connected (script w catalog) \<and> \<not> committed (script w catalog) \<and>
    (\<forall>l \<in> set (stdout (script w catalog)). subject l = None)"
  by (auto simp: script_def split: option.splits)

lemma connected_iff:
  "connected (script w catalog) \<longleftrightarrow> file_exists w \<and> connect_exn w = None"
  by (auto simp: script_def split_beta split: option.splits)

lemma committed_iff:
  "committed (script w catalog) \<longleftrightarrow> file_exists w \<and> connect_exn w = None \<and> commit_exn w = None"
  by (auto simp: script_def split_beta split: option.splits)

lemma connect_simps [simp]:
  "stored (connect w) = table w" "history (connect w) = table w"
  "unique_id (connect w) = table_unique w"
  "pending (connect w) = execute_exns w" "executed (connect w) = []"
  "rollbacks (connect w) = 0"
  by (simp_all add: connect_def)

text \<open>The equations that evaluate a run on a concrete environment.\<close>

lemmas run_defs =
  main_def migrations_def script_def connect_def process_def execute_def raise_of_def
  aborts_def next_fault_def fetchone_def ids_def no_such_table_def unique_failed_def Let_def

section \<open>The claims of the specification\<close>

text \<open>
  Claim C1 (idempotence). As the specification words it, a second run over the ledger left by
  a first run performs no insert and leaves that ledger unchanged, for every catalog and
  ledger. The loop isolates a failing record, so a first run may commit while one of its
  records was not written; the second run then inserts that record. What holds: when the
  first run commits and none of its printed lines is an error line, a second run on the
  resulting table executes no INSERT, prints no ``inserted'' line and leaves the table as it
  was, whatever the second run's own environment does (faults of its statements, a failing
  \<^verbatim>\<open>connect\<close> or \<^verbatim>\<open>commit\<close>, a missing file).
\<close>

theorem idempotence_after_clean_run:
  assumes "committed (script w1 catalog)"
    and "\<forall>l \<in> set (stdout (script w1 catalog)). \<not> is_failed l"
    and "table w2 = ledger (script w1 catalog)"
  shows "ledger (script w2 catalog) = ledger (script w1 catalog) \<and>
         filter is_insert (map fst (stmts (script w2 catalog))) = [] \<and>
         (\<forall>l \<in> set (stdout (script w2 catalog)). \<forall>i. l \<noteq> Inserted i)"
proof -
  from assms(1) have c1: "file_exists w1" "connect_exn w1 = None"
    by (simp_all add: committed_iff)
  have "\<forall>l \<in> set (fst (reconcile (connect w1) catalog)). \<not> is_failed l"
    using assms(2) by (simp add: script_connected c1)
  then have "ids (history (connect w1)) \<union> fst ` set catalog
      \<subseteq> ids (history (snd (reconcile (connect w1) catalog)))"
    by (rule reconcile_clean)
  then have all: "fst ` set catalog \<subseteq> ids (table w2)"
    using assms(3) by (simp add: script_connected c1)
  show ?thesis
  proof (cases "file_exists w2 \<and> connect_exn w2 = None")
    case True
    from all have "fst ` set catalog \<subseteq> ids (history (connect w2))" by simp
    moreover have "stored (connect w2) = history (connect w2)" by simp
    ultimately have "history (snd (reconcile (connect w2) catalog)) = history (connect w2) \<and>
      filter is_insert (map fst (executed (snd (reconcile (connect w2) catalog)))) =
        filter is_insert (map fst (executed (connect w2))) \<and>
      (\<forall>l \<in> set (fst (reconcile (connect w2) catalog)). \<forall>i. l \<noteq> Inserted i)"
      by (rule reconcile_present)
    then show ?thesis
      using True assms(3) by (simp add: script_connected split: option.splits)
  next
    case False
    from script_not_connected [OF False, of catalog] show ?thesis
      using assms(3) by auto
  qed
qed

theorem idempotence_after_clean_run_witness:
  "committed (main \<lparr>file_exists = True, connect_exn = None, table = Some [],
       table_unique = True, execute_exns = [], commit_exn = None\<rparr>) \<and>
   stdout (main \<lparr>file_exists = True, connect_exn = None, table = Some [],
       table_unique = True, execute_exns = [], commit_exn = None\<rparr>) =
     [Checking, Inserted ''20260218024142_AddExpenseRouteId'',
      Inserted ''20260219062317_AddDamageCategoriesAndReturnExtensions'', Completed] \<and>
   ledger (main \<lparr>file_exists = True, connect_exn = None,
       table = Some [(''20260218024142_AddExpenseRouteId'', ''9.0.0''),
                     (''20260219062317_AddDamageCategoriesAndReturnExtensions'', ''9.0.0'')],
       table_unique = True, execute_exns = [], commit_exn = None\<rparr>) =
     Some [(''20260218024142_AddExpenseRouteId'', ''9.0.0''),
           (''20260219062317_AddDamageCategoriesAndReturnExtensions'', ''9.0.0'')] \<and>
   filter is_insert (map fst (stmts (main \<lparr>file_exists = True, connect_exn = None,
       table = Some [(''20260218024142_AddExpenseRouteId'', ''9.0.0''),
                     (''20260219062317_AddDamageCategoriesAndReturnExtensions'', ''9.0.0'')],
       table_unique = True, execute_exns = [], commit_exn = None\<rparr>))) = []"
  using idempotence_after_clean_run
    [of "\<lparr>file_exists = True, connect_exn = None, table = Some [],
          table_unique = True, execute_exns = [], commit_exn = None\<rparr>"
        migrations
        "\<lparr>file_exists = True, connect_exn = None,
          table = Some [(''20260218024142_AddExpenseRouteId'', ''9.0.0''),
                        (''20260219062317_AddDamageCategoriesAndReturnExtensions'', ''9.0.0'')],
          table_unique = True, execute_exns = [], commit_exn = None\<rparr>"]
  by (simp add: run_defs)

text \<open>
  The run that refutes the unconditional wording: the table is empty, the first INSERT of the
  first run raises \<^verbatim>\<open>database is locked\<close>, the run goes on, inserts the second migration and
  commits. The second run, on the table so left, inserts the first migration: one INSERT, and
  a table that differs from the one it started with.
\<close>

theorem idempotence_counterexample:
  "main \<lparr>file_exists = True, connect_exn = None, table = Some [],
       table_unique = True,
       execute_exns = [None, Some (Raises (OperationalError ''database is locked''))],
       commit_exn = None\<rparr> =
     \<lparr>status = 0,
      stdout = [Checking,
                Failed ''20260218024142_AddExpenseRouteId''
                  (OperationalError ''database is locked''),
                Inserted ''20260219062317_AddDamageCategoriesAndReturnExtensions'',
                Completed],
      ledger = Some [(''20260219062317_AddDamageCategoriesAndReturnExtensions'', ''9.0.0'')],
      stmts = [(SelectStmt ''20260218024142_AddExpenseRouteId'', None),
               (InsertStmt ''20260218024142_AddExpenseRouteId'' ''9.0.0'',
                  Some (OperationalError ''database is locked'')),
               (SelectStmt ''20260219062317_AddDamageCategoriesAndReturnExtensions'', None),
               (InsertStmt ''20260219062317_AddDamageCategoriesAndReturnExtensions'' ''9.0.0'',
                  None)],
      connected = True, committed = True, closed = True\<rparr> \<and>
   main \<lparr>file_exists = True, connect_exn = None,
       table = Some [(''20260219062317_AddDamageCategoriesAndReturnExtensions'', ''9.0.0'')],
       table_unique = True, execute_exns = [], commit_exn = None\<rparr> =
     \<lparr>status = 0,
      stdout = [Checking, Inserted ''20260218024142_AddExpenseRouteId'',
                AlreadyRecorded ''20260219062317_AddDamageCategoriesAndReturnExtensions'',
                Completed],
      ledger = Some [(''20260219062317_AddDamageCategoriesAndReturnExtensions'', ''9.0.0''),
                     (''20260218024142_AddExpenseRouteId'', ''9.0.0'')],
      stmts = [(SelectStmt ''20260218024142_AddExpenseRouteId'', None),
               (InsertStmt ''20260218024142_AddExpenseRouteId'' ''9.0.0'', None),
               (SelectStmt ''20260219062317_AddDamageCategoriesAndReturnExtensions'', None)],
      connected = True, committed = True, closed = True\<rparr>"
  by (simp add: run_defs)

text \<open>
  Claim C2 (per-record failure isolation). Let the loop reach record \<open>b\<close> after the records
  \<open>pre\<close>, and let the processing of \<open>b\<close> raise \<open>e\<close>, at the SELECT or at the INSERT. Then the
  error is that record's outcome, in its place among the outcomes; \<open>b\<close> adds no row (the
  table is as it was before \<open>b\<close>, or the stored table when the error rolled the transaction
  back); and the loop runs over the later records \<open>post\<close> from the state \<open>b\<close> left: each of
  them has its SELECT executed, in order, and each is in the table when its own processing
  is done, unless that processing raised. When \<open>b\<close>'s is the only failure still to come (no
  fault pending after it, and the table exists) no later outcome is an error and every later
  identifier is in the table at the end. And a run that opened its connection always gets to
  \<^verbatim>\<open>commit\<close>, however many records failed: it prints one line per record between the
  announcement and the closing line, and it has committed exactly when \<^verbatim>\<open>commit\<close> did not
  raise.
\<close>

theorem failure_isolation:
  assumes "reconcile c pre = (ls1, c1)"
    and "process c1 b = (Failed i e, c2)"
    and "reconcile c2 post = (ls2, c3)"
  shows "reconcile c (pre @ b # post) = (ls1 @ Failed i e # ls2, c3) \<and>
         i = fst b \<and> (history c2 = history c1 \<or> history c2 = stored c1) \<and>
         map subject ls2 = map (\<lambda>m. Some (fst m)) post \<and>
         filter is_select (map fst (executed c3)) =
           filter is_select (map fst (executed c2)) @ map (\<lambda>m. SelectStmt (fst m)) post \<and>
         (\<forall>j<length post. is_failed (ls2 ! j) \<or>
            fst (post ! j) \<in> ids (history (snd (reconcile c2 (take (Suc j) post))))) \<and>
         (set (pending c2) \<subseteq> {None} \<and> history c2 \<noteq> None \<longrightarrow>
            (\<forall>l \<in> set ls2. \<not> is_failed l) \<and> fst ` set post \<subseteq> ids (history c3)) \<and>
         (connected (script w catalog) \<longrightarrow>
            length (stdout (script w catalog)) = length catalog + 2 \<and>
            committed (script w catalog) = (commit_exn w = None))"
proof -
  have run: "reconcile c (pre @ b # post) = (ls1 @ Failed i e # ls2, c3)"
    using assms by (simp add: reconcile_append)
  have i: "i = fst b"
    using process_subject [of c1 b] assms(2) by simp
  have h: "history c2 = history c1 \<or> history c2 = stored c1"
    using process_history [of c1 b] assms(2) by auto
  have s: "map subject ls2 = map (\<lambda>m. Some (fst m)) post"
    using reconcile_subject [of c2 post] assms(3) by simp
  have q: "filter is_select (map fst (executed c3)) =
      filter is_select (map fst (executed c2)) @ map (\<lambda>m. SelectStmt (fst m)) post"
    using reconcile_selects [of c2 post] assms(3) by simp
  have n: "\<forall>j<length post. is_failed (ls2 ! j) \<or>
      fst (post ! j) \<in> ids (history (snd (reconcile c2 (take (Suc j) post))))"
    using reconcile_recorded [of _ post c2] assms(3) by auto
  have a: "set (pending c2) \<subseteq> {None} \<and> history c2 \<noteq> None \<longrightarrow>
      (\<forall>l \<in> set ls2. \<not> is_failed l) \<and> fst ` set post \<subseteq> ids (history c3)"
    using reconcile_quiet [of c2 post] assms(3) by simp
  have k: "connected (script w catalog) \<longrightarrow>
      length (stdout (script w catalog)) = length catalog + 2 \<and>
      committed (script w catalog) = (commit_exn w = None)"
    by (simp add: connected_iff script_connected)
  from run i h s q n a k show ?thesis by blast
qed

theorem failure_isolation_witness:
  "reconcile
     \<lparr>stored = Some [(''A'', ''9.0.0'')],
       history = Some [(''A'', ''9.0.0'')],
       unique_id = True, pending = [None, None, Some (Raises (IntegrityError ''UNIQUE constraint failed''))],
       executed = [],
       rollbacks = 0\<rparr>
     [(''A'', ''9.0.0'')] =
     ([AlreadyRecorded ''A''],
      \<lparr>stored = Some [(''A'', ''9.0.0'')],
       history = Some [(''A'', ''9.0.0'')],
       unique_id = True, pending = [None, Some (Raises (IntegrityError ''UNIQUE constraint failed''))],
       executed = [(SelectStmt ''A'', None)],
       rollbacks = 0\<rparr>) \<and>
   process
     \<lparr>stored = Some [(''A'', ''9.0.0'')],
       history = Some [(''A'', ''9.0.0'')],
       unique_id = True, pending = [None, Some (Raises (IntegrityError ''UNIQUE constraint failed''))],
       executed = [(SelectStmt ''A'', None)],
       rollbacks = 0\<rparr>
     (''B'', ''9.0.0'') =
     (Failed ''B'' (IntegrityError ''UNIQUE constraint failed''),
      \<lparr>stored = Some [(''A'', ''9.0.0'')],
       history = Some [(''A'', ''9.0.0'')],
       unique_id = True, pending = [],
       executed = [(SelectStmt ''A'', None), (SelectStmt ''B'', None),
                   (InsertStmt ''B'' ''9.0.0'', Some (IntegrityError ''UNIQUE constraint failed''))],
       rollbacks = 0\<rparr>) \<and>
   reconcile
     \<lparr>stored = Some [(''A'', ''9.0.0'')],
       history = Some [(''A'', ''9.0.0'')],
       unique_id = True, pending = [],
       executed = [(SelectStmt ''A'', None), (SelectStmt ''B'', None),
                   (InsertStmt ''B'' ''9.0.0'', Some (IntegrityError ''UNIQUE constraint failed''))],
       rollbacks = 0\<rparr>
     [(''C'', ''9.0.0'')] =
     ([Inserted ''C''],
      \<lparr>stored = Some [(''A'', ''9.0.0'')],
       history = Some [(''A'', ''9.0.0''), (''C'', ''9.0.0'')],
       unique_id = True, pending = [],
       executed = [(SelectStmt ''A'', None), (SelectStmt ''B'', None),
                   (InsertStmt ''B'' ''9.0.0'', Some (IntegrityError ''UNIQUE constraint failed'')),
                   (SelectStmt ''C'', None), (InsertStmt ''C'' ''9.0.0'', None)],
       rollbacks = 0\<rparr>) \<and>
   reconcile
     \<lparr>stored = Some [(''A'', ''9.0.0'')],
       history = Some [(''A'', ''9.0.0'')],
       unique_id = True, pending = [None, None, Some (Raises (IntegrityError ''UNIQUE constraint failed''))],
       executed = [],
       rollbacks = 0\<rparr>
     ([(''A'', ''9.0.0'')] @ (''B'', ''9.0.0'') # [(''C'', ''9.0.0'')]) =
     ([AlreadyRecorded ''A''] @ Failed ''B'' (IntegrityError ''UNIQUE constraint failed'') # [Inserted ''C''],
      \<lparr>stored = Some [(''A'', ''9.0.0'')],
       history = Some [(''A'', ''9.0.0''), (''C'', ''9.0.0'')],
       unique_id = True, pending = [],
       executed = [(SelectStmt ''A'', None), (SelectStmt ''B'', None),
                   (InsertStmt ''B'' ''9.0.0'', Some (IntegrityError ''UNIQUE constraint failed'')),
                   (SelectStmt ''C'', None), (InsertStmt ''C'' ''9.0.0'', None)],
       rollbacks = 0\<rparr>) \<and>
   fst ` set [(''C'', ''9.0.0'')] \<subseteq> ids (Some [(''A'', ''9.0.0''), (''C'', ''9.0.0'')]) \<and>
   committed (script
     \<lparr>file_exists = True, connect_exn = None, table = Some [(''A'', ''9.0.0'')],
       table_unique = True,
       execute_exns = [None, None, Some (Raises (IntegrityError ''UNIQUE constraint failed''))],
       commit_exn = None\<rparr>
     [(''A'', ''9.0.0''), (''B'', ''9.0.0''), (''C'', ''9.0.0'')])"
  using failure_isolation
    [of "\<lparr>stored = Some [(''A'', ''9.0.0'')],
       history = Some [(''A'', ''9.0.0'')],
       unique_id = True, pending = [None, None, Some (Raises (IntegrityError ''UNIQUE constraint failed''))],
       executed = [],
       rollbacks = 0\<rparr>"
        "[(''A'', ''9.0.0'')]" "[AlreadyRecorded ''A'']"
        "\<lparr>stored = Some [(''A'', ''9.0.0'')],
       history = Some [(''A'', ''9.0.0'')],
       unique_id = True, pending = [None, Some (Raises (IntegrityError ''UNIQUE constraint failed''))],
       executed = [(SelectStmt ''A'', None)],
       rollbacks = 0\<rparr>"
        "(''B'', ''9.0.0'')" "''B''" "IntegrityError ''UNIQUE constraint failed''"
        "\<lparr>stored = Some [(''A'', ''9.0.0'')],
       history = Some [(''A'', ''9.0.0'')],
       unique_id = True, pending = [],
       executed = [(SelectStmt ''A'', None), (SelectStmt ''B'', None),
                   (InsertStmt ''B'' ''9.0.0'', Some (IntegrityError ''UNIQUE constraint failed''))],
       rollbacks = 0\<rparr>"
        "[(''C'', ''9.0.0'')]" "[Inserted ''C'']"
        "\<lparr>stored = Some [(''A'', ''9.0.0'')],
       history = Some [(''A'', ''9.0.0''), (''C'', ''9.0.0'')],
       unique_id = True, pending = [],
       executed = [(SelectStmt ''A'', None), (SelectStmt ''B'', None),
                   (InsertStmt ''B'' ''9.0.0'', Some (IntegrityError ''UNIQUE constraint failed'')),
                   (SelectStmt ''C'', None), (InsertStmt ''C'' ''9.0.0'', None)],
       rollbacks = 0\<rparr>"
        "\<lparr>file_exists = True, connect_exn = None, table = Some [(''A'', ''9.0.0'')],
       table_unique = True,
       execute_exns = [None, None, Some (Raises (IntegrityError ''UNIQUE constraint failed''))],
       commit_exn = None\<rparr>"
        "[(''A'', ''9.0.0''), (''B'', ''9.0.0''), (''C'', ''9.0.0'')]"]
  by (simp add: run_defs)

text \<open>
  Claim C3 (completeness on success). The specification scopes the claim to the entries
  ``whose insert does not fail''. Two things of the code escape that wording. The handler of
  the loop body also catches an exception of the SELECT, and then no INSERT is attempted at
  all. And an inserted row is only staged until the commit after the loop: when a later
  statement fails with an error on which SQLite rolls the open transaction back, the row is
  gone, the loop goes on, and the commit succeeds without it. What holds: after a run that
  committed, every catalog entry whose printed outcome is not an error line (neither its
  SELECT nor its INSERT raised), and after which SQLite rolled nothing back, has its
  identifier in the table. The line at position \<open>Suc i\<close> is the outcome of entry \<open>i\<close>, after
  the line that announces the check; the loop over the first \<open>Suc i\<close> entries gives the
  connection as entry \<open>i\<close> left it.
\<close>

theorem completeness_on_success:
  assumes "committed (script w catalog)" and "i < length catalog"
    and "\<not> is_failed (stdout (script w catalog) ! Suc i)"
    and "rollbacks (snd (reconcile (connect w) catalog)) =
         rollbacks (snd (reconcile (connect w) (take (Suc i) catalog)))"
  shows "subject (stdout (script w catalog) ! Suc i) = Some (fst (catalog ! i)) \<and>
         fst (catalog ! i) \<in> ids (ledger (script w catalog))"
proof -
  from assms(1) have c: "file_exists w" "connect_exn w = None" "commit_exn w = None"
    by (simp_all add: committed_iff)
  have n: "stdout (script w catalog) ! Suc i = fst (reconcile (connect w) catalog) ! i"
    using assms(2) by (simp add: script_connected c nth_append)
  have "subject (fst (reconcile (connect w) catalog) ! i) = Some (fst (catalog ! i))"
    using reconcile_subject [of "connect w" catalog] assms(2)
    by (metis nth_map reconcile_length)
  moreover have "fst (catalog ! i) \<in> ids (history (snd (reconcile (connect w) catalog)))"
    using assms(2,3,4) unfolding n by (rule reconcile_not_failed)
  ultimately show ?thesis
    unfolding n by (simp add: script_connected c)
qed

theorem completeness_on_success_witness:
  "main \<lparr>file_exists = True, connect_exn = None, table = Some [],
       table_unique = True,
       execute_exns = [None, None, None, Some (Raises (OperationalError ''database is locked''))],
       commit_exn = None\<rparr> =
     \<lparr>status = 0,
      stdout = [Checking, Inserted ''20260218024142_AddExpenseRouteId'',
                Failed ''20260219062317_AddDamageCategoriesAndReturnExtensions''
                  (OperationalError ''database is locked''),
                Completed],
      ledger = Some [(''20260218024142_AddExpenseRouteId'', ''9.0.0'')],
      stmts = [(SelectStmt ''20260218024142_AddExpenseRouteId'', None),
               (InsertStmt ''20260218024142_AddExpenseRouteId'' ''9.0.0'', None),
               (SelectStmt ''20260219062317_AddDamageCategoriesAndReturnExtensions'', None),
               (InsertStmt ''20260219062317_AddDamageCategoriesAndReturnExtensions'' ''9.0.0'',
                  Some (OperationalError ''database is locked''))],
      connected = True, committed = True, closed = True\<rparr> \<and>
   0 < length migrations \<and>
   rollbacks (snd (reconcile (connect \<lparr>file_exists = True, connect_exn = None, table = Some [],
       table_unique = True,
       execute_exns = [None, None, None, Some (Raises (OperationalError ''database is locked''))],
       commit_exn = None\<rparr>) migrations)) = 0 \<and>
   rollbacks (snd (reconcile (connect \<lparr>file_exists = True, connect_exn = None, table = Some [],
       table_unique = True,
       execute_exns = [None, None, None, Some (Raises (OperationalError ''database is locked''))],
       commit_exn = None\<rparr>) (take (Suc 0) migrations))) = 0 \<and>
   fst (migrations ! 0) \<in> ids (ledger (main \<lparr>file_exists = True, connect_exn = None, table = Some [],
       table_unique = True,
       execute_exns = [None, None, None, Some (Raises (OperationalError ''database is locked''))],
       commit_exn = None\<rparr>))"
  using completeness_on_success
    [of "\<lparr>file_exists = True, connect_exn = None, table = Some [],
          table_unique = True,
          execute_exns = [None, None, None, Some (Raises (OperationalError ''database is locked''))],
          commit_exn = None\<rparr>" migrations 0]
  by (simp add: run_defs)

text \<open>
  Three runs that refute the wording. In the first the first migration is inserted, the
  INSERT of the second raises \<^verbatim>\<open>disk I/O error\<close> and SQLite rolls the transaction back: the
  run commits, the first migration's insert has not failed, and its identifier is not in the
  table. In the second the table exists and the SELECT of the first migration raises
  \<^verbatim>\<open>database is locked\<close>: no INSERT is executed for it, the run commits, and its identifier is
  not in the table. In the third the file has no table \<^verbatim>\<open>__EFMigrationsHistory\<close>: both
  SELECTs raise, no INSERT is executed, the run commits and prints its completion line, and
  there is no row at all.
\<close>

theorem completeness_counterexample:
  "main \<lparr>file_exists = True, connect_exn = None, table = Some [],
       table_unique = True,
       execute_exns = [None, None, None, Some (RollsBack (OperationalError ''disk I/O error''))],
       commit_exn = None\<rparr> =
     \<lparr>status = 0,
      stdout = [Checking, Inserted ''20260218024142_AddExpenseRouteId'',
                Failed ''20260219062317_AddDamageCategoriesAndReturnExtensions''
                  (OperationalError ''disk I/O error''),
                Completed],
      ledger = Some [],
      stmts = [(SelectStmt ''20260218024142_AddExpenseRouteId'', None),
               (InsertStmt ''20260218024142_AddExpenseRouteId'' ''9.0.0'', None),
               (SelectStmt ''20260219062317_AddDamageCategoriesAndReturnExtensions'', None),
               (InsertStmt ''20260219062317_AddDamageCategoriesAndReturnExtensions'' ''9.0.0'',
                  Some (OperationalError ''disk I/O error''))],
      connected = True, committed = True, closed = True\<rparr> \<and>
   ''20260218024142_AddExpenseRouteId'' \<notin> ids (Some []) \<and>
   main \<lparr>file_exists = True, connect_exn = None, table = Some [],
       table_unique = True,
       execute_exns = [Some (Raises (OperationalError ''database is locked''))],
       commit_exn = None\<rparr> =
     \<lparr>status = 0,
      stdout = [Checking,
                Failed ''20260218024142_AddExpenseRouteId''
                  (OperationalError ''database is locked''),
                Inserted ''20260219062317_AddDamageCategoriesAndReturnExtensions'',
                Completed],
      ledger = Some [(''20260219062317_AddDamageCategoriesAndReturnExtensions'', ''9.0.0'')],
      stmts = [(SelectStmt ''20260218024142_AddExpenseRouteId'',
                  Some (OperationalError ''database is locked'')),
               (SelectStmt ''20260219062317_AddDamageCategoriesAndReturnExtensions'', None),
               (InsertStmt ''20260219062317_AddDamageCategoriesAndReturnExtensions'' ''9.0.0'',
                  None)],
      connected = True, committed = True, closed = True\<rparr> \<and>
   ''20260218024142_AddExpenseRouteId'' \<notin>
     ids (Some [(''20260219062317_AddDamageCategoriesAndReturnExtensions'', ''9.0.0'')]) \<and>
   main \<lparr>file_exists = True, connect_exn = None, table = None,
       table_unique = True,
       execute_exns = [],
       commit_exn = None\<rparr> =
     \<lparr>status = 0,
      stdout = [Checking,
                Failed ''20260218024142_AddExpenseRouteId''
                  (OperationalError ''no such table: __EFMigrationsHistory''),
                Failed ''20260219062317_AddDamageCategoriesAndReturnExtensions''
                  (OperationalError ''no such table: __EFMigrationsHistory''),
                Completed],
      ledger = None,
      stmts = [(SelectStmt ''20260218024142_AddExpenseRouteId'',
                  Some (OperationalError ''no such table: __EFMigrationsHistory'')),
               (SelectStmt ''20260219062317_AddDamageCategoriesAndReturnExtensions'',
                  Some (OperationalError ''no such table: __EFMigrationsHistory''))],
      connected = True, committed = True, closed = True\<rparr>"
  by (simp add: run_defs)

text \<open>
  Claim C4 (no overwrite). Whatever the environment does, the table after the run is the
  table before it followed by new rows: no existing row is changed, moved or removed (the
  statements of the script are a SELECT and an INSERT, nothing else, and a rollback removes
  only rows the run itself had inserted). An identifier \<open>x\<close> recorded with version \<open>v1\<close> is
  still mapped to \<open>v1\<close>, and no new row has the identifier \<open>x\<close>, also when the catalog lists
  \<open>x\<close> with another version.
\<close>

theorem no_overwrite:
  assumes "table w = Some rows" and "map_of rows x = Some v1"
  shows "\<exists>new. ledger (script w catalog) = Some (rows @ new) \<and> set new \<subseteq> set catalog \<and>
           x \<notin> set (map fst new) \<and> map_of (rows @ new) x = Some v1"
proof (cases "file_exists w \<and> connect_exn w = None")
  case True
  have "stored (connect w) = Some rows" and "history (connect w) = Some (rows @ [])"
    and "\<forall>r \<in> set []. fst r \<notin> set (map fst rows)"
    using assms(1) by simp_all
  from reconcile_grows [OF this, of catalog] obtain new where
    h: "history (snd (reconcile (connect w) catalog)) = Some (rows @ new)"
    and s: "set new \<subseteq> set catalog"
    and d: "\<forall>r \<in> set new. fst r \<notin> set (map fst rows)" by auto
  have x: "x \<in> set (map fst rows)"
    using assms(2) by (metis map_of_SomeD fst_conv image_eqI set_map)
  have "x \<notin> set (map fst new)"
  proof
    assume "x \<in> set (map fst new)"
    then obtain r where "r \<in> set new" and "fst r = x" by auto
    with d x show False by blast
  qed
  moreover have "map_of (rows @ new) x = Some v1"
    using assms(2) by (simp add: map_add_Some_iff)
  ultimately show ?thesis using True h s by (simp add: script_connected)
next
  case False
  with assms show ?thesis
    using script_not_connected [OF False, of catalog] by simp
qed

theorem no_overwrite_witness:
  "map_of [(''20260218024142_AddExpenseRouteId'', ''8.0.0'')] ''20260218024142_AddExpenseRouteId''
     = Some ''8.0.0'' \<and>
   (''20260218024142_AddExpenseRouteId'', ''9.0.0'') \<in> set migrations \<and>
   ledger (main \<lparr>file_exists = True, connect_exn = None,
       table = Some [(''20260218024142_AddExpenseRouteId'', ''8.0.0'')],
       table_unique = True, execute_exns = [], commit_exn = None\<rparr>) =
     Some [(''20260218024142_AddExpenseRouteId'', ''8.0.0''),
           (''20260219062317_AddDamageCategoriesAndReturnExtensions'', ''9.0.0'')]"
  using no_overwrite
    [of "\<lparr>file_exists = True, connect_exn = None,
          table = Some [(''20260218024142_AddExpenseRouteId'', ''8.0.0'')],
          table_unique = True, execute_exns = [], commit_exn = None\<rparr>"
        "[(''20260218024142_AddExpenseRouteId'', ''8.0.0'')]"
        "''20260218024142_AddExpenseRouteId''" "''8.0.0''" migrations]
  by (simp add: run_defs)

text \<open>
  Claim C5 (a duplicate within one run). The specification says that, once the first
  occurrence of an identifier is inserted, the second occurrence's check returns true, its
  outcome is ``already recorded'' and there is no second insert. The row inserted for the
  first occurrence is visible to the later SELECTs of the same connection only as long as
  the transaction stands: an error between the two occurrences on which SQLite rolls the
  transaction back removes it, and the second occurrence is then inserted. And the SELECT of
  the second occurrence can itself raise, and then its outcome is the error line. What
  holds: if processing \<open>(x, v)\<close> inserts it and SQLite rolls nothing back while the records
  in between are processed, the row is there for the second occurrence \<open>(x, v')\<close>
  (\<open>fetchone\<close> finds it); the outcome is \<open>AlreadyRecorded x\<close> when the SELECT does not raise
  and \<open>Failed x e\<close> when it raises \<open>e\<close>; in both cases the only statement executed for the
  second occurrence is that SELECT, and it adds no row.
\<close>

theorem duplicate_sees_staged_row:
  assumes "process c (x, v) = (Inserted x, c1)"
    and "reconcile c1 between = (ls, c2)"
    and "rollbacks c2 = rollbacks c1"
    and "process c2 (x, v') = (l, c3)"
  shows "fetchone c2 x \<and>
         l = (case raise_of c2 (SelectStmt x) of
                None \<Rightarrow> AlreadyRecorded x | Some e \<Rightarrow> Failed x e) \<and>
         executed c3 = executed c2 @ [(SelectStmt x, raise_of c2 (SelectStmt x))] \<and>
         (history c3 = history c2 \<or> history c3 = stored c2)"
proof -
  have "x \<in> ids (history c1)"
    using process_not_failed(1) [of c "(x, v)"] assms(1) by simp
  moreover have "ids (history c1) \<subseteq> ids (history c2)"
    using reconcile_kept [of c1 between] assms(2,3) by simp
  ultimately have x: "x \<in> ids (history c2)" by blast
  then have "fst (x, v') \<in> ids (history c2)" by simp
  note pp = process_present [OF this]
  have "history c3 = history c2 \<or> history c3 = stored c2"
    using pp(1) assms(4) by (auto simp: execute_select_history)
  then show ?thesis
    using pp x assms(4)
    by (cases "raise_of c2 (SelectStmt x)") (simp_all add: fetchone_def)
qed

theorem duplicate_sees_staged_row_witness:
  "process
     \<lparr>stored = Some [],
       history = Some [],
       unique_id = True, pending = [],
       executed = [],
       rollbacks = 0\<rparr>
     (''A'', ''9.0.0'') =
     (Inserted ''A'',
      \<lparr>stored = Some [],
       history = Some [(''A'', ''9.0.0'')],
       unique_id = True, pending = [],
       executed = [(SelectStmt ''A'', None), (InsertStmt ''A'' ''9.0.0'', None)],
       rollbacks = 0\<rparr>) \<and>
   reconcile
     \<lparr>stored = Some [],
       history = Some [(''A'', ''9.0.0'')],
       unique_id = True, pending = [],
       executed = [(SelectStmt ''A'', None), (InsertStmt ''A'' ''9.0.0'', None)],
       rollbacks = 0\<rparr>
     [(''B'', ''9.0.0'')] =
     ([Inserted ''B''],
      \<lparr>stored = Some [],
       history = Some [(''A'', ''9.0.0''), (''B'', ''9.0.0'')],
       unique_id = True, pending = [],
       executed = [(SelectStmt ''A'', None), (InsertStmt ''A'' ''9.0.0'', None),
                   (SelectStmt ''B'', None), (InsertStmt ''B'' ''9.0.0'', None)],
       rollbacks = 0\<rparr>) \<and>
   process
     \<lparr>stored = Some [],
       history = Some [(''A'', ''9.0.0''), (''B'', ''9.0.0'')],
       unique_id = True, pending = [],
       executed = [(SelectStmt ''A'', None), (InsertStmt ''A'' ''9.0.0'', None),
                   (SelectStmt ''B'', None), (InsertStmt ''B'' ''9.0.0'', None)],
       rollbacks = 0\<rparr>
     (''A'', ''8.0.0'') =
     (AlreadyRecorded ''A'',
      \<lparr>stored = Some [],
       history = Some [(''A'', ''9.0.0''), (''B'', ''9.0.0'')],
       unique_id = True, pending = [],
       executed = [(SelectStmt ''A'', None), (InsertStmt ''A'' ''9.0.0'', None),
                   (SelectStmt ''B'', None), (InsertStmt ''B'' ''9.0.0'', None),
                   (SelectStmt ''A'', None)],
       rollbacks = 0\<rparr>) \<and>
   fetchone
     \<lparr>stored = Some [],
       history = Some [(''A'', ''9.0.0''), (''B'', ''9.0.0'')],
       unique_id = True, pending = [],
       executed = [(SelectStmt ''A'', None), (InsertStmt ''A'' ''9.0.0'', None),
                   (SelectStmt ''B'', None), (InsertStmt ''B'' ''9.0.0'', None)],
       rollbacks = 0\<rparr>
     ''A''"
  using duplicate_sees_staged_row
    [of "\<lparr>stored = Some [],
       history = Some [],
       unique_id = True, pending = [],
       executed = [],
       rollbacks = 0\<rparr>"
        "''A''" "''9.0.0''"
        "\<lparr>stored = Some [],
       history = Some [(''A'', ''9.0.0'')],
       unique_id = True, pending = [],
       executed = [(SelectStmt ''A'', None), (InsertStmt ''A'' ''9.0.0'', None)],
       rollbacks = 0\<rparr>"
        "[(''B'', ''9.0.0'')]" "[Inserted ''B'']"
        "\<lparr>stored = Some [],
       history = Some [(''A'', ''9.0.0''), (''B'', ''9.0.0'')],
       unique_id = True, pending = [],
       executed = [(SelectStmt ''A'', None), (InsertStmt ''A'' ''9.0.0'', None),
                   (SelectStmt ''B'', None), (InsertStmt ''B'' ''9.0.0'', None)],
       rollbacks = 0\<rparr>"
        "''8.0.0''" "AlreadyRecorded ''A''"
        "\<lparr>stored = Some [],
       history = Some [(''A'', ''9.0.0''), (''B'', ''9.0.0'')],
       unique_id = True, pending = [],
       executed = [(SelectStmt ''A'', None), (InsertStmt ''A'' ''9.0.0'', None),
                   (SelectStmt ''B'', None), (InsertStmt ''B'' ''9.0.0'', None),
                   (SelectStmt ''A'', None)],
       rollbacks = 0\<rparr>"]
  by (simp add: run_defs)

text \<open>
  Two runs that refute the wording. In the first the catalog lists \<open>A\<close> twice, the first
  occurrence is inserted, and the SELECT of the second occurrence raises
  \<^verbatim>\<open>disk I/O error\<close>, on which SQLite rolls the transaction back: the second outcome is the
  error line, not ``already recorded'', and the table ends without \<open>A\<close>. In the second the
  catalog lists \<open>A\<close>, \<open>B\<close> and \<open>A\<close> again with another version; \<open>A\<close> is inserted, the
  INSERT of \<open>B\<close> raises \<^verbatim>\<open>database or disk is full\<close> and the transaction is rolled back; the
  check of the second \<open>A\<close> finds no row, and \<open>A\<close> is inserted a second time, with the other
  version.
\<close>

theorem duplicate_counterexample:
  "script \<lparr>file_exists = True, connect_exn = None, table = Some [],
       table_unique = True,
       execute_exns = [None, None, Some (RollsBack (OperationalError ''disk I/O error''))],
       commit_exn = None\<rparr>
     [(''A'', ''9.0.0''), (''A'', ''9.0.0'')] =
     \<lparr>status = 0,
      stdout = [Checking, Inserted ''A'', Failed ''A'' (OperationalError ''disk I/O error''),
                Completed],
      ledger = Some [],
      stmts = [(SelectStmt ''A'', None), (InsertStmt ''A'' ''9.0.0'', None),
               (SelectStmt ''A'', Some (OperationalError ''disk I/O error''))],
      connected = True, committed = True, closed = True\<rparr> \<and>
   script \<lparr>file_exists = True, connect_exn = None, table = Some [],
       table_unique = True,
       execute_exns = [None, None, None, Some (RollsBack (OperationalError ''database or disk is full''))],
       commit_exn = None\<rparr>
     [(''A'', ''9.0.0''), (''B'', ''9.0.0''), (''A'', ''8.0.0'')] =
     \<lparr>status = 0,
      stdout = [Checking, Inserted ''A'',
                Failed ''B'' (OperationalError ''database or disk is full''),
                Inserted ''A'', Completed],
      ledger = Some [(''A'', ''8.0.0'')],
      stmts = [(SelectStmt ''A'', None), (InsertStmt ''A'' ''9.0.0'', None),
               (SelectStmt ''B'', None),
               (InsertStmt ''B'' ''9.0.0'', Some (OperationalError ''database or disk is full'')),
               (SelectStmt ''A'', None), (InsertStmt ''A'' ''8.0.0'', None)],
      connected = True, committed = True, closed = True\<rparr>"
  by (simp add: run_defs)

text \<open>
  Claim C6 (fatal errors end the process with a non-zero status). The script does not do
  this. An exception of \<^verbatim>\<open>sqlite3.connect\<close> or of \<^verbatim>\<open>conn.commit()\<close> is caught by the outer
  handler, which prints \<^verbatim>\<open>Database connection error: ...\<close>; the script then reaches its end
  and the process exits with status 0. Only the missing file, handled before the \<^verbatim>\<open>try\<close>
  with \<^verbatim>\<open>exit(1)\<close>, gives a non-zero status. The two runs below are evaluated on the script
  as it is.
\<close>

theorem fatal_errors_exit_zero:
  "main \<lparr>file_exists = True,
       connect_exn = Some (OperationalError ''unable to open database file''),
       table = Some [], table_unique = True, execute_exns = [], commit_exn = None\<rparr> =
     \<lparr>status = 0,
      stdout = [ConnectionError (OperationalError ''unable to open database file'')],
      ledger = Some [], stmts = [], connected = False, committed = False, closed = False\<rparr> \<and>
   status (main \<lparr>file_exists = True, connect_exn = None, table = Some [],
       table_unique = True, execute_exns = [],
       commit_exn = Some (OperationalError ''database is locked'')\<rparr>) = 0 \<and>
   last (stdout (main \<lparr>file_exists = True, connect_exn = None, table = Some [],
       table_unique = True, execute_exns = [],
       commit_exn = Some (OperationalError ''database is locked'')\<rparr>)) =
     ConnectionError (OperationalError ''database is locked'')"
  by (simp add: run_defs)

text \<open>
  Claim C7 (missing storage). When the file does not exist the script prints the error line
  and exits with status 1: no connection is opened, no statement is executed, the table is
  untouched. The status is distinguished: every run that finds the file ends with status 0.
\<close>

theorem missing_storage_halts:
  assumes "\<not> file_exists w"
  shows "script w catalog =
           \<lparr>status = 1, stdout = [FileNotFound], ledger = table w, stmts = [],
            connected = False, committed = False, closed = False\<rparr> \<and>
         (\<forall>w' catalog'. file_exists w' \<longrightarrow> status (script w' catalog') = 0)"
  using assms by (simp add: script_def split_beta split: option.splits)

theorem missing_storage_halts_witness:
  "\<not> file_exists \<lparr>file_exists = False, connect_exn = None, table = Some [(''A'', ''9.0.0'')],
       table_unique = True, execute_exns = [], commit_exn = None\<rparr> \<and>
   main \<lparr>file_exists = False, connect_exn = None, table = Some [(''A'', ''9.0.0'')],
       table_unique = True, execute_exns = [], commit_exn = None\<rparr> =
     \<lparr>status = 1, stdout = [FileNotFound], ledger = Some [(''A'', ''9.0.0'')], stmts = [],
      connected = False, committed = False, closed = False\<rparr> \<and>
   status (main \<lparr>file_exists = True, connect_exn = None, table = Some [(''A'', ''9.0.0'')],
       table_unique = True, execute_exns = [], commit_exn = None\<rparr>) = 0"
  using missing_storage_halts [of "\<lparr>file_exists = False, connect_exn = None,
       table = Some [(''A'', ''9.0.0'')], table_unique = True, execute_exns = [],
       commit_exn = None\<rparr>" migrations]
  by (simp add: main_def)

text \<open>
  Claim C8 (the connection is released on every exit path). The script does not do this.
  \<^verbatim>\<open>conn.close()\<close> is the last statement of the \<^verbatim>\<open>try\<close> block, after \<^verbatim>\<open>conn.commit()\<close> and the
  completion line; there is no \<^verbatim>\<open>finally\<close> and no \<^verbatim>\<open>with\<close>. When \<^verbatim>\<open>commit\<close> raises, control
  goes to the outer handler and \<^verbatim>\<open>close\<close> is never called. The run below has an open
  connection, a failed commit and no close; the same environment with a commit that succeeds
  closes the connection.
\<close>

theorem commit_failure_skips_close:
  "connected (main \<lparr>file_exists = True, connect_exn = None, table = Some [],
       table_unique = True, execute_exns = [],
       commit_exn = Some (OperationalError ''database is locked'')\<rparr>) \<and>
   \<not> committed (main \<lparr>file_exists = True, connect_exn = None, table = Some [],
       table_unique = True, execute_exns = [],
       commit_exn = Some (OperationalError ''database is locked'')\<rparr>) \<and>
   \<not> closed (main \<lparr>file_exists = True, connect_exn = None, table = Some [],
       table_unique = True, execute_exns = [],
       commit_exn = Some (OperationalError ''database is locked'')\<rparr>) \<and>
   closed (main \<lparr>file_exists = True, connect_exn = None, table = Some [],
       table_unique = True, execute_exns = [], commit_exn = None\<rparr>)"
  by (simp add: run_defs)

text \<open>
  Claim C9 (catalog order). The outcomes of the loop are about the catalog's entries, one
  each, in the catalog's order; the SELECTs are executed in that order, one per entry; the
  loop over \<open>xs @ ys\<close> is the loop over \<open>xs\<close> followed by the loop over \<open>ys\<close> from the state
  the first left; and the printed lines of a run that opened its connection are the
  announcement, the outcomes in catalog order, and the closing line.
\<close>

theorem catalog_order:
  "map subject (fst (reconcile c catalog)) = map (\<lambda>m. Some (fst m)) catalog \<and>
   filter is_select (map fst (executed (snd (reconcile c catalog)))) =
     filter is_select (map fst (executed c)) @ map (\<lambda>m. SelectStmt (fst m)) catalog \<and>
   reconcile c (xs @ ys) =
     (fst (reconcile c xs) @ fst (reconcile (snd (reconcile c xs)) ys),
      snd (reconcile (snd (reconcile c xs)) ys)) \<and>
   map subject (stdout (script w catalog)) =
     (if connected (script w catalog) then None # map (\<lambda>m. Some (fst m)) catalog @ [None]
      else [None])"
proof -
  have "map subject (stdout (script w catalog)) =
     (if connected (script w catalog) then None # map (\<lambda>m. Some (fst m)) catalog @ [None]
      else [None])"
  proof (cases "file_exists w \<and> connect_exn w = None")
    case True
    then show ?thesis
      by (simp add: script_connected reconcile_subject split: option.splits)
  next
    case False
    then show ?thesis
      by (auto simp: script_def split: option.splits)
  qed
  then show ?thesis
    using reconcile_subject [of c catalog] reconcile_selects [of c catalog]
      reconcile_append [of c xs ys] by simp
qed

theorem catalog_order_witness:
  "map subject (stdout (main \<lparr>file_exists = True, connect_exn = None, table = Some [],
       table_unique = True,
       execute_exns = [None, Some (Raises (OperationalError ''database is locked''))],
       commit_exn = None\<rparr>)) =
     [None, Some ''20260218024142_AddExpenseRouteId'',
      Some ''20260219062317_AddDamageCategoriesAndReturnExtensions'', None]"
  using catalog_order
    [of "connect \<lparr>file_exists = True, connect_exn = None, table = Some [],
          table_unique = True,
          execute_exns = [None, Some (Raises (OperationalError ''database is locked''))],
          commit_exn = None\<rparr>" migrations "[]" "[]"
        "\<lparr>file_exists = True, connect_exn = None, table = Some [],
          table_unique = True,
          execute_exns = [None, Some (Raises (OperationalError ''database is locked''))],
          commit_exn = None\<rparr>"]
  by (simp add: run_defs)

text \<open>
  Claim C10 (errors of the existence check). When the SELECT of a record raises \<open>e\<close>, the
  record's outcome is \<open>Failed\<close> with \<open>e\<close>, no INSERT is attempted for it, it adds no row (the
  table is as it was, or the stored table when the error rolled the transaction back), and
  the loop goes on with the records after it. When the file has no table
  \<^verbatim>\<open>__EFMigrationsHistory\<close>, a run that opened its connection prints one error line per
  catalog entry (with SQLite's own \<^verbatim>\<open>no such table\<close> error when the environment adds no
  fault), executes no INSERT, goes on to \<^verbatim>\<open>commit\<close>, ends with status 0, and prints the
  completion line when the commit succeeds.
\<close>

theorem existence_check_isolation:
  "(raise_of c (SelectStmt (fst m)) = Some e \<longrightarrow>
      reconcile c (m # post) =
        (Failed (fst m) e # fst (reconcile (snd (execute c (SelectStmt (fst m)))) post),
         snd (reconcile (snd (execute c (SelectStmt (fst m)))) post)) \<and>
      (history (snd (execute c (SelectStmt (fst m)))) = history c \<or>
       history (snd (execute c (SelectStmt (fst m)))) = stored c) \<and>
      executed (snd (execute c (SelectStmt (fst m)))) =
        executed c @ [(SelectStmt (fst m), Some e)]) \<and>
   (connected (script w catalog) \<and> table w = None \<longrightarrow>
      status (script w catalog) = 0 \<and>
      length (stdout (script w catalog)) = length catalog + 2 \<and>
      (\<forall>i<length catalog. \<exists>e'. stdout (script w catalog) ! Suc i = Failed (fst (catalog ! i)) e') \<and>
      (set (execute_exns w) \<subseteq> {None} \<longrightarrow>
         take (Suc (length catalog)) (stdout (script w catalog)) =
           Checking # map (\<lambda>m. Failed (fst m) no_such_table) catalog) \<and>
      last (stdout (script w catalog)) =
        (case commit_exn w of None \<Rightarrow> Completed | Some e' \<Rightarrow> ConnectionError e') \<and>
      committed (script w catalog) = (commit_exn w = None) \<and>
      filter is_insert (map fst (stmts (script w catalog))) = [] \<and>
      ledger (script w catalog) = None)"
proof -
  have A: "reconcile c (m # post) =
        (Failed (fst m) e # fst (reconcile (snd (execute c (SelectStmt (fst m)))) post),
         snd (reconcile (snd (execute c (SelectStmt (fst m)))) post)) \<and>
      (history (snd (execute c (SelectStmt (fst m)))) = history c \<or>
       history (snd (execute c (SelectStmt (fst m)))) = stored c) \<and>
      executed (snd (execute c (SelectStmt (fst m)))) =
        executed c @ [(SelectStmt (fst m), Some e)]"
    if r: "raise_of c (SelectStmt (fst m)) = Some e"
  proof -
    have "process c m = (Failed (fst m) e, snd (execute c (SelectStmt (fst m))))"
      by (simp add: process_eq Let_def r)
    then show ?thesis by (simp add: r split_beta execute_select_history)
  qed
  have B: "status (script w catalog) = 0 \<and>
      length (stdout (script w catalog)) = length catalog + 2 \<and>
      (\<forall>i<length catalog. \<exists>e'. stdout (script w catalog) ! Suc i = Failed (fst (catalog ! i)) e') \<and>
      (set (execute_exns w) \<subseteq> {None} \<longrightarrow>
         take (Suc (length catalog)) (stdout (script w catalog)) =
           Checking # map (\<lambda>m. Failed (fst m) no_such_table) catalog) \<and>
      last (stdout (script w catalog)) =
        (case commit_exn w of None \<Rightarrow> Completed | Some e' \<Rightarrow> ConnectionError e') \<and>
      committed (script w catalog) = (commit_exn w = None) \<and>
      filter is_insert (map fst (stmts (script w catalog))) = [] \<and>
      ledger (script w catalog) = None"
    if cn: "connected (script w catalog)" and nt: "table w = None"
  proof -
    from cn have c: "file_exists w" "connect_exn w = None"
      by (simp_all add: connected_iff)
    have hn: "history (connect w) = None" and sn: "stored (connect w) = None"
      using nt by simp_all
    note rn = reconcile_no_table [OF hn sn, of catalog]
    have f: "\<exists>e'. stdout (script w catalog) ! Suc i = Failed (fst (catalog ! i)) e'"
      if i: "i < length catalog" for i
    proof -
      have n: "stdout (script w catalog) ! Suc i = fst (reconcile (connect w) catalog) ! i"
        using i by (simp add: script_connected c nth_append)
      have "fst (reconcile (connect w) catalog) ! i \<in> set (fst (reconcile (connect w) catalog))"
        using i by simp
      with rn have "is_failed (fst (reconcile (connect w) catalog) ! i)" by blast
      moreover have "subject (fst (reconcile (connect w) catalog) ! i) = Some (fst (catalog ! i))"
        using reconcile_subject [of "connect w" catalog] i
        by (metis nth_map reconcile_length)
      ultimately show ?thesis unfolding n by (rule failed_line)
    qed
    have q: "take (Suc (length catalog)) (stdout (script w catalog)) =
           Checking # map (\<lambda>m. Failed (fst m) no_such_table) catalog"
      if "set (execute_exns w) \<subseteq> {None}"
      using reconcile_no_table_quiet [OF hn, of catalog] that
      by (simp add: script_connected c)
    show ?thesis
      using f q rn by (simp add: script_connected c)
  qed
  from A B show ?thesis by blast
qed

theorem existence_check_isolation_witness:
  "raise_of
     \<lparr>stored = Some [],
       history = Some [],
       unique_id = True, pending = [Some (RollsBack (OperationalError ''disk I/O error''))],
       executed = [],
       rollbacks = 0\<rparr>
     (SelectStmt ''A'') = Some (OperationalError ''disk I/O error'') \<and>
   reconcile
     \<lparr>stored = Some [],
       history = Some [],
       unique_id = True, pending = [Some (RollsBack (OperationalError ''disk I/O error''))],
       executed = [],
       rollbacks = 0\<rparr>
     [(''A'', ''9.0.0''), (''B'', ''9.0.0'')] =
     ([Failed ''A'' (OperationalError ''disk I/O error''), Inserted ''B''],
      \<lparr>stored = Some [],
       history = Some [(''B'', ''9.0.0'')],
       unique_id = True, pending = [],
       executed = [(SelectStmt ''A'', Some (OperationalError ''disk I/O error'')),
                   (SelectStmt ''B'', None), (InsertStmt ''B'' ''9.0.0'', None)],
       rollbacks = Suc 0\<rparr>) \<and>
   connected (main \<lparr>file_exists = True, connect_exn = None, table = None,
       table_unique = True,
       execute_exns = [],
       commit_exn = None\<rparr>) \<and>
   stdout (main \<lparr>file_exists = True, connect_exn = None, table = None,
       table_unique = True,
       execute_exns = [],
       commit_exn = None\<rparr>) =
     [Checking,
      Failed ''20260218024142_AddExpenseRouteId'' no_such_table,
      Failed ''20260219062317_AddDamageCategoriesAndReturnExtensions'' no_such_table,
      Completed] \<and>
   committed (main \<lparr>file_exists = True, connect_exn = None, table = None,
       table_unique = True,
       execute_exns = [],
       commit_exn = None\<rparr>)"
  using existence_check_isolation
    [of "\<lparr>stored = Some [],
       history = Some [],
       unique_id = True, pending = [Some (RollsBack (OperationalError ''disk I/O error''))],
       executed = [],
       rollbacks = 0\<rparr>"
        "(''A'', ''9.0.0'')" "OperationalError ''disk I/O error''"
        "[(''B'', ''9.0.0'')]"
        "\<lparr>file_exists = True, connect_exn = None, table = None,
          table_unique = True,
          execute_exns = [],
          commit_exn = None\<rparr>" migrations]
  by (simp add: run_defs)

end
